theory Spec2Isabelle
  imports Main
begin

section \<open>Python values\<close>

text \<open>
  The argument trees, tool outputs and the blackboard are Python objects built from
  strings, lists and dictionaries. A dictionary is an association list in insertion
  order (the order matters for \<open>list(d.keys())[0]\<close>); a Python dictionary has each
  key once. \<open>POther\<close> stands for every object that is neither \<open>None\<close>, a
  \<open>str\<close>, a \<open>list\<close> nor a \<open>dict\<close> and is not a bool or an int (a float, a
  tuple, a datetime): the code only ever passes such a value along.
\<close>

datatype pyval =
    PNone
  | PBool bool
  | PInt int
  | PStr string
  | PList "pyval list"
  | PDict "(string \<times> pyval) list"
  | POther nat

type_synonym pydict = "(string \<times> pyval) list"

text \<open>\<open>k in d\<close>, \<open>d.get(k)\<close> and \<open>d[k] = v\<close> of a Python dictionary.\<close>

definition has_key :: "('k \<times> 'v) list \<Rightarrow> 'k \<Rightarrow> bool" where
  "has_key d k = (map_of d k \<noteq> None)"

fun dict_set :: "('k \<times> 'v) list \<Rightarrow> 'k \<Rightarrow> 'v \<Rightarrow> ('k \<times> 'v) list" where
  "dict_set [] k v = [(k, v)]"
| "dict_set ((k', v') # d) k v =
     (if k' = k then (k, v) # d else (k', v') # dict_set d k v)"

section \<open>String primitives\<close>

text \<open>
  \<open>re.compile(r'\{([^}]+)\}').findall(value)\<close>: the scan goes from left to right; at
  an opening brace the greedy class \<open>[^}]+\<close> takes the whole run of characters other
  than a closing brace, the match succeeds when that run is not empty and is followed by
  a closing brace, and the scan goes on behind it; otherwise the scan moves one
  character on. The result is the list of the captured groups.
\<close>

function findall :: "string \<Rightarrow> string list" where
  "findall [] = []"
| "findall (c # cs) =
     (if c = CHR ''{'' \<and> takeWhile (\<lambda>x. x \<noteq> CHR ''}'') cs \<noteq> []
         \<and> dropWhile (\<lambda>x. x \<noteq> CHR ''}'') cs \<noteq> []
      then takeWhile (\<lambda>x. x \<noteq> CHR ''}'') cs
             # findall (tl (dropWhile (\<lambda>x. x \<noteq> CHR ''}'') cs))
      else findall cs)"
  by pat_completeness auto
termination
proof (relation "measure length")
  show "wf (measure length)" by simp
next
  fix c :: char and cs :: string
  assume "c = CHR ''{'' \<and> takeWhile (\<lambda>x. x \<noteq> CHR ''}'') cs \<noteq> []
            \<and> dropWhile (\<lambda>x. x \<noteq> CHR ''}'') cs \<noteq> []"
  have "length (dropWhile (\<lambda>x. x \<noteq> CHR ''}'') cs) \<le> length cs"
    by (rule length_dropWhile_le)
  then have "length (tl (dropWhile (\<lambda>x. x \<noteq> CHR ''}'') cs)) \<le> length cs"
    by simp
  then show "(tl (dropWhile (\<lambda>x. x \<noteq> CHR ''}'') cs), c # cs) \<in> measure length"
    by simp
next
  fix c :: char and cs :: string
  show "(cs, c # cs) \<in> measure length" by simp
qed

text \<open>
  \<open>s.replace(old, new)\<close>: every occurrence of \<open>old\<close>, found from left to right and
  without overlap, becomes \<open>new\<close>. For an empty \<open>old\<close> Python puts \<open>new\<close> before
  every character and at the end.
\<close>

function replace :: "string \<Rightarrow> string \<Rightarrow> string \<Rightarrow> string" where
  "replace s old new =
     (if old = [] then (case s of [] \<Rightarrow> new | c # cs \<Rightarrow> new @ c # replace cs old new)
      else if s = [] then []
      else if take (length old) s = old
        then new @ replace (drop (length old) s) old new
      else hd s # replace (tl s) old new)"
  by pat_completeness auto
termination
  by (relation "measure (\<lambda>(s, old, new). length s)") auto

declare replace.simps [simp del]

text \<open>\<open>s.split(sep)\<close> for a separator of one character: always at least one part.\<close>

fun split :: "char \<Rightarrow> string \<Rightarrow> string list" where
  "split sep [] = [[]]"
| "split sep (c # cs) =
     (if c = sep then [] # split sep cs
      else (case split sep cs of [] \<Rightarrow> [[c]] | p # ps \<Rightarrow> (c # p) # ps))"

text \<open>The f-string \<open>f"{{{placeholder}}}"\<close>: the expression between braces.\<close>

definition braces :: "string \<Rightarrow> string" where
  "braces e = CHR ''{'' # e @ ''}''"

text \<open>
  \<open>str(v)\<close>: a string is its own string representation. For every other object the
  representation is Python's built-in one, which is not code of this repository: it is
  the parameter \<open>repr\<close>.
\<close>

definition py_str :: "(pyval \<Rightarrow> string) \<Rightarrow> pyval \<Rightarrow> string" where
  "py_str repr v = (case v of PStr s \<Rightarrow> s | _ \<Rightarrow> repr v)"

section \<open>The placeholder resolver (agent/decision/tool\_selector.py)\<close>

text \<open>
  The loop \<open>for part in path: if isinstance(value, dict): value = value.get(part) else:
  return literal\<close>. \<open>value.get(part)\<close> has no default, so a missing key gives
  \<open>None\<close>. The result \<open>None\<close> of \<open>traverse\<close> is the early return of the literal.
\<close>

fun traverse :: "pyval \<Rightarrow> string list \<Rightarrow> pyval option" where
  "traverse v [] = Some v"
| "traverse v (part # path) =
     (case v of
        PDict d \<Rightarrow> traverse (case map_of d part of Some x \<Rightarrow> x | None \<Rightarrow> PNone) path
      | _ \<Rightarrow> None)"

text \<open>
  \<open>\_resolve\_placeholder\<close>. \<open>env\<close> is \<open>os.environ\<close>; \<open>step_results\<close> maps a step
  id to the output dictionary of that step.
\<close>

definition resolve_placeholder ::
  "(string \<rightharpoonup> string) \<Rightarrow> string \<Rightarrow> pydict \<Rightarrow> (string \<times> pydict) list \<Rightarrow> pyval" where
  "resolve_placeholder env placeholder blackboard step_results =
     (let parts = split CHR ''.'' placeholder in
      if length parts < 2 then
        (case map_of blackboard placeholder of
           Some v \<Rightarrow> v
         | None \<Rightarrow> PStr (braces placeholder))
      else
        let source = hd parts; path = tl parts in
        if source = ''blackboard'' then
          (case traverse (PDict blackboard) path of
             Some v \<Rightarrow> v
           | None \<Rightarrow> PStr (braces placeholder))
        else if has_key step_results source then
          (case traverse (PDict (the (map_of step_results source))) path of
             Some v \<Rightarrow> v
           | None \<Rightarrow> PStr (braces placeholder))
        else if source = ''env'' then
          (case env (hd path) of
             Some v \<Rightarrow> PStr v
           | None \<Rightarrow> PStr (braces placeholder))
        else PStr (braces placeholder))"

text \<open>\<open>\_resolve\_string\<close>: a sole placeholder keeps the type of what it refers to.\<close>

definition resolve_string ::
  "(pyval \<Rightarrow> string) \<Rightarrow> (string \<rightharpoonup> string) \<Rightarrow> string \<Rightarrow> pydict
     \<Rightarrow> (string \<times> pydict) list \<Rightarrow> pyval" where
  "resolve_string repr env value blackboard step_results =
     (let matches = findall value in
      if matches = [] then PStr value
      else if length matches = 1 \<and> value = braces (hd matches)
        then resolve_placeholder env (hd matches) blackboard step_results
      else PStr (foldl (\<lambda>result m.
                   replace result (braces m)
                     (py_str repr (resolve_placeholder env m blackboard step_results)))
                 value matches))"

text \<open>
  \<open>\_resolve\_arguments\<close>: a string value is resolved, a dictionary value is resolved
  recursively, and in a list value only the elements that are strings are resolved; any
  other element of a list, a dictionary or a list too, is kept as it is.
\<close>

fun resolve_arguments ::
  "(pyval \<Rightarrow> string) \<Rightarrow> (string \<rightharpoonup> string) \<Rightarrow> pydict \<Rightarrow> pydict
     \<Rightarrow> (string \<times> pydict) list \<Rightarrow> pydict"
and resolve_value ::
  "(pyval \<Rightarrow> string) \<Rightarrow> (string \<rightharpoonup> string) \<Rightarrow> pyval \<Rightarrow> pydict
     \<Rightarrow> (string \<times> pydict) list \<Rightarrow> pyval" where
  "resolve_arguments repr env [] blackboard step_results = []"
| "resolve_arguments repr env ((key, value) # args) blackboard step_results =
     (key, resolve_value repr env value blackboard step_results)
       # resolve_arguments repr env args blackboard step_results"
| "resolve_value repr env (PStr s) blackboard step_results =
     resolve_string repr env s blackboard step_results"
| "resolve_value repr env (PList vs) blackboard step_results =
     PList (map (\<lambda>v. case v of
                        PStr s \<Rightarrow> resolve_string repr env s blackboard step_results
                      | _ \<Rightarrow> v) vs)"
| "resolve_value repr env (PDict d) blackboard step_results =
     PDict (resolve_arguments repr env d blackboard step_results)"
| "resolve_value repr env v blackboard step_results = v"


section \<open>The argument preprocessor (agent/decision/tool\_selector.py)\<close>

text \<open>
  The chain \<open>if "rows" in out ... elif "data_rows" in out ... elif "output" in out ...
  else keys = list(out.keys()); if keys: ... keys[0]\<close>, which the source writes out
  once for each kind of token. \<open>None\<close>: the output dictionary is empty and the value
  is not rewritten.
\<close>

definition pick_field :: "pydict \<Rightarrow> string option" where
  "pick_field out =
     (if has_key out ''rows'' then Some ''rows''
      else if has_key out ''data_rows'' then Some ''data_rows''
      else if has_key out ''output'' then Some ''output''
      else (case out of [] \<Rightarrow> None | (k, v) # rest \<Rightarrow> Some k))"

definition is_generic :: "string \<Rightarrow> bool" where
  "is_generic ph = (ph \<in> set [''prev_step_output'', ''step_output'', ''previous_output''])"

definition is_digit :: "char \<Rightarrow> bool" where
  "is_digit c = (c \<in> set ''0123456789'')"

text \<open>
  \<open>re.match(r"^step\d+_output$", ph)\<close>: the greedy \<open>\d+\<close> takes the whole run of
  digits, since the character after it must be the underscore; \<open>$\<close> also matches
  before one final newline. Strings are sequences of ASCII characters here, so the
  digits are \<open>0\<close> to \<open>9\<close>.
\<close>

definition matches_step_output :: "string \<Rightarrow> bool" where
  "matches_step_output ph =
     (take 4 ph = ''step''
      \<and> takeWhile is_digit (drop 4 ph) \<noteq> []
      \<and> (dropWhile is_digit (drop 4 ph) = ''_output''
         \<or> dropWhile is_digit (drop 4 ph) = ''_output'' @ [CHR 0x0A]))"

text \<open>
  The body of \<open>for ph in matches\<close>: what one token does to the string \<open>value\<close>.
  \<open>if prev_step_id:\<close> is Python's truth test, false for \<open>None\<close> and for the empty
  string.
\<close>

definition preprocess_token ::
  "string list \<Rightarrow> (string \<times> pydict) list \<Rightarrow> string \<Rightarrow> string \<Rightarrow> string" where
  "preprocess_token depends_on step_results value ph =
     (if is_generic ph then
        (case find (\<lambda>dep_id. has_key step_results dep_id) (rev depends_on) of
           None \<Rightarrow> value
         | Some prev_step_id \<Rightarrow>
             if prev_step_id = [] then value
             else (case pick_field (the (map_of step_results prev_step_id)) of
                     None \<Rightarrow> value
                   | Some field \<Rightarrow>
                       replace value (braces ph) (braces (prev_step_id @ ''.'' @ field))))
      else if matches_step_output ph then
        (let step_id = hd (split CHR ''_'' ph) in
         if has_key step_results step_id then
           (case pick_field (the (map_of step_results step_id)) of
              None \<Rightarrow> value
            | Some field \<Rightarrow> replace value (braces ph) (braces (step_id @ ''.'' @ field)))
         else value)
      else value)"

text \<open>The matches are those of the string as it was; each token works on the current value.\<close>

definition preprocess_string ::
  "string \<Rightarrow> string list \<Rightarrow> (string \<times> pydict) list \<Rightarrow> string" where
  "preprocess_string value depends_on step_results =
     foldl (preprocess_token depends_on step_results) value (findall value)"

text \<open>
  \<open>\_preprocess\_placeholders\<close>. In a list, a string is preprocessed (the source wraps
  it in \<open>{"temp": v}\<close> for the recursive call), a dictionary is preprocessed
  recursively, and any other element, a list too, is kept.
\<close>

fun preprocess_placeholders ::
  "pydict \<Rightarrow> string list \<Rightarrow> (string \<times> pydict) list \<Rightarrow> pydict"
and preprocess_value ::
  "pyval \<Rightarrow> string list \<Rightarrow> (string \<times> pydict) list \<Rightarrow> pyval"
and preprocess_list ::
  "pyval list \<Rightarrow> string list \<Rightarrow> (string \<times> pydict) list \<Rightarrow> pyval list" where
  "preprocess_placeholders [] depends_on step_results = []"
| "preprocess_placeholders ((key, value) # args) depends_on step_results =
     (key, preprocess_value value depends_on step_results)
       # preprocess_placeholders args depends_on step_results"
| "preprocess_value (PStr s) depends_on step_results =
     PStr (preprocess_string s depends_on step_results)"
| "preprocess_value (PList vs) depends_on step_results =
     PList (preprocess_list vs depends_on step_results)"
| "preprocess_value (PDict d) depends_on step_results =
     PDict (preprocess_placeholders d depends_on step_results)"
| "preprocess_value v depends_on step_results = v"
| "preprocess_list [] depends_on step_results = []"
| "preprocess_list (PStr s # vs) depends_on step_results =
     PStr (preprocess_string s depends_on step_results)
       # preprocess_list vs depends_on step_results"
| "preprocess_list (PDict d # vs) depends_on step_results =
     PDict (preprocess_placeholders d depends_on step_results)
       # preprocess_list vs depends_on step_results"
| "preprocess_list (v # vs) depends_on step_results =
     v # preprocess_list vs depends_on step_results"

section \<open>The data contracts (agent/models.py)\<close>

text \<open>The timestamps of the models are left out: no decision of the code reads them.\<close>

datatype status = Pending | InProgress | Completed | Failed

record tool_request =
  req_name :: string
  req_args :: pydict
  req_depends_on :: "string list"
  request_id :: string

record tool_result =
  res_request_id :: string
  res_name :: string
  res_success :: bool
  res_output :: pydict
  res_error :: "string option"

record plan_step =
  step_id :: string
  tool :: string
  step_args :: pydict
  depends_on :: "string list"
  status :: status
  result :: "tool_result option"
  description :: string

record execution_plan =
  plan_id :: string
  goal :: string
  steps :: "plan_step list"
  plan_status :: status

section \<open>Preparing and validating a request (agent/decision/tool\_selector.py)\<close>

definition prepare_tool_request ::
  "(pyval \<Rightarrow> string) \<Rightarrow> (string \<rightharpoonup> string) \<Rightarrow> plan_step \<Rightarrow> pydict
     \<Rightarrow> (string \<times> pydict) list \<Rightarrow> tool_request" where
  "prepare_tool_request repr env step bb sr =
     \<lparr>req_name = tool step,
      req_args = resolve_arguments repr env
                   (preprocess_placeholders (step_args step) (depends_on step) sr) bb sr,
      req_depends_on = depends_on step,
      request_id = step_id step\<rparr>"

definition required_args :: "(string \<times> string list) list" where
  "required_args =
     [(''extract_webpage'', [''url'']),
      (''extract_pdf'', [''path'']),
      (''caption_image'', [''image_url_or_path'']),
      (''google_sheets_upsert'', [''spreadsheet_title'', ''sheet_name'', ''rows'']),
      (''google_drive_share'', [''file_id'']),
      (''gmail_send'', [''to'', ''subject'']),
      (''telegram_send'', [''chat_id'', ''text''])]"

text \<open>The loop \<open>for arg in required_args[tool_name]\<close>, which returns at the first bad argument.\<close>

fun check_required :: "string list \<Rightarrow> pydict \<Rightarrow> bool \<times> string option" where
  "check_required [] a = (True, None)"
| "check_required (arg # rest) a =
     (case map_of a arg of
        None \<Rightarrow> (False, Some (''Missing required argument: '' @ arg))
      | Some PNone \<Rightarrow> (False, Some (''Missing required argument: '' @ arg))
      | Some (PStr v) \<Rightarrow>
          if CHR ''{'' \<in> set v \<and> CHR ''}'' \<in> set v
          then (False, Some (''Unresolved placeholder in argument: '' @ arg @ '' = '' @ v))
          else check_required rest a
      | Some other \<Rightarrow> check_required rest a)"

definition validate_tool_request :: "tool_request \<Rightarrow> bool \<times> string option" where
  "validate_tool_request request =
     (case map_of required_args (req_name request) of
        None \<Rightarrow> (True, None)
      | Some names \<Rightarrow> check_required names (req_args request))"

section \<open>The execution engine (agent/action/executor.py)\<close>

text \<open>
  The tool handlers call external servers. A handler is a parameter: from the name of
  the tool, the arguments and the state of the outside world \<open>'w\<close> it gives either
  the text of the exception it raised (\<open>Inl\<close>) or its output dictionary (\<open>Inr\<close>),
  and the next state of the world. A world that is unchanged has seen no tool call.
  Every tool call is taken to return: a handler is a total function.
\<close>

type_synonym 'w handler = "string \<Rightarrow> pydict \<Rightarrow> 'w \<Rightarrow> (string + pydict) \<times> 'w"

definition tool_handlers :: "string list" where
  "tool_handlers =
     [''extract_webpage'', ''extract_pdf'', ''caption_image'', ''google_sheets_upsert'',
      ''google_drive_share'', ''gmail_send'', ''telegram_send'']"

definition execute_tool :: "'w handler \<Rightarrow> tool_request \<Rightarrow> 'w \<Rightarrow> tool_result \<times> 'w" where
  "execute_tool handler request w =
     (if req_name request \<notin> set tool_handlers then
        (\<lparr>res_request_id = request_id request, res_name = req_name request,
          res_success = False, res_output = [],
          res_error = Some (''Unknown tool: '' @ req_name request)\<rparr>, w)
      else
        (case handler (req_name request) (req_args request) w of
           (Inr out, w') \<Rightarrow>
             (\<lparr>res_request_id = request_id request, res_name = req_name request,
               res_success = True, res_output = out, res_error = None\<rparr>, w')
         | (Inl e, w') \<Rightarrow>
             (\<lparr>res_request_id = request_id request, res_name = req_name request,
               res_success = False, res_output = [], res_error = Some e\<rparr>, w')))"

definition key_mappings :: "(string \<times> (string \<times> string) list) list" where
  "key_mappings =
     [(''google_sheets_upsert'',
         [(''spreadsheet_id'', ''spreadsheet_id''), (''sheet_url'', ''sheet_url'')]),
      (''google_drive_share'', [(''link'', ''share_link'')]),
      (''gmail_send'', [(''message_id'', ''email_message_id'')]),
      (''extract_webpage'', [(''markdown'', ''extracted_content''), (''rows'', ''data_rows'')])]"

fun project :: "(string \<times> string) list \<Rightarrow> pydict \<Rightarrow> pydict \<Rightarrow> pydict" where
  "project [] out bb = bb"
| "project ((output_key, blackboard_key) # mappings) out bb =
     project mappings out
       (if has_key out output_key
        then dict_set bb blackboard_key (the (map_of out output_key)) else bb)"

definition update_blackboard :: "pydict \<Rightarrow> plan_step \<Rightarrow> pydict \<Rightarrow> pydict" where
  "update_blackboard bb step out =
     dict_set
       (project (case map_of key_mappings (tool step) of None \<Rightarrow> [] | Some m \<Rightarrow> m) out bb)
       (''step_'' @ step_id step) (PDict out)"

text \<open>
  What \<open>execute_plan\<close> mutates: the steps of the plan and its status, the
  blackboard, the two local collections, and the outside world. A step object is
  named by its position in \<open>plan.steps\<close>; \<open>pending_steps\<close> and \<open>executable\<close>
  are lists of positions.
\<close>

record 'w exec_state =
  st_steps :: "plan_step list"
  st_plan_status :: status
  st_blackboard :: pydict
  st_completed :: "string list"
  st_results :: "(string \<times> pydict) list"
  st_world :: 'w

text \<open>\<open>all(dep in completed_steps for dep in step.depends_on)\<close> over the pending steps.\<close>

definition executable_steps :: "plan_step list \<Rightarrow> string list \<Rightarrow> nat list \<Rightarrow> nat list" where
  "executable_steps ss completed pending =
     filter (\<lambda>i. list_all (\<lambda>dep. dep \<in> set completed) (depends_on (ss ! i))) pending"

text \<open>
  The first loop over \<open>executable\<close>: each step is marked in progress, its request is
  prepared and validated, and the coroutine of the tool call is put into \<open>tasks\<close>
  without being run. An invalid request ends \<open>execute_plan\<close> at once: the second
  component is then \<open>None\<close>.
\<close>

fun prepare_wave ::
  "(pyval \<Rightarrow> string) \<Rightarrow> (string \<rightharpoonup> string) \<Rightarrow> pydict \<Rightarrow> (string \<times> pydict) list
     \<Rightarrow> nat list \<Rightarrow> plan_step list \<Rightarrow> (nat \<times> tool_request) list
     \<Rightarrow> plan_step list \<times> (nat \<times> tool_request) list option" where
  "prepare_wave repr env bb sr [] ss tasks = (ss, Some tasks)"
| "prepare_wave repr env bb sr (i # executable) ss tasks =
     (let step = (ss ! i)\<lparr>status := InProgress\<rparr>;
          tool_request = prepare_tool_request repr env step bb sr
      in if \<not> fst (validate_tool_request tool_request) then
           (ss[i := step\<lparr>status := Failed,
                         result := Some \<lparr>res_request_id = step_id step, res_name = tool step,
                                         res_success = False, res_output = [],
                                         res_error = snd (validate_tool_request tool_request)\<rparr>\<rparr>],
            None)
         else prepare_wave repr env bb sr executable (ss[i := step])
                (tasks @ [(i, tool_request)]))"

text \<open>
  The second loop, \<open>for step, task in tasks: result = await task\<close>. A coroutine runs
  when it is awaited, so the tool calls of a wave run one after the other, in the order
  of \<open>tasks\<close>. The first result that is not a success ends \<open>execute_plan\<close>.
\<close>

fun await_wave ::
  "'w handler \<Rightarrow> (nat \<times> tool_request) list \<Rightarrow> 'w exec_state \<Rightarrow> bool \<times> 'w exec_state" where
  "await_wave handler [] s = (True, s)"
| "await_wave handler ((i, request) # tasks) s =
     (let (res, w') = execute_tool handler request (st_world s);
          step = (st_steps s ! i)\<lparr>result := Some res\<rparr>
      in if res_success res then
           await_wave handler tasks
             (s\<lparr>st_steps := (st_steps s)[i := step\<lparr>status := Completed\<rparr>],
                st_completed := st_completed s @ [step_id step],
                st_results := dict_set (st_results s) (step_id step) (res_output res),
                st_blackboard := update_blackboard (st_blackboard s) step (res_output res),
                st_world := w'\<rparr>)
         else
           (False, s\<lparr>st_steps := (st_steps s)[i := step\<lparr>status := Failed\<rparr>],
                      st_plan_status := Failed,
                      st_world := w'\<rparr>))"

text \<open>
  The loop \<open>while pending_steps\<close>. The result is the returned success flag and the
  state at the return, which holds the blackboard that is returned.
\<close>

function exec_loop ::
  "(pyval \<Rightarrow> string) \<Rightarrow> (string \<rightharpoonup> string) \<Rightarrow> 'w handler \<Rightarrow> nat list \<Rightarrow> 'w exec_state
     \<Rightarrow> bool \<times> 'w exec_state" where
  "exec_loop repr env handler pending s =
     (if pending = [] then (True, s\<lparr>st_plan_status := Completed\<rparr>)
      else if executable_steps (st_steps s) (st_completed s) pending = [] then
        (False, s\<lparr>st_plan_status := Failed\<rparr>)
      else
        (case prepare_wave repr env (st_blackboard s) (st_results s)
                (executable_steps (st_steps s) (st_completed s) pending) (st_steps s) [] of
           (ss, None) \<Rightarrow> (False, s\<lparr>st_steps := ss, st_plan_status := Failed\<rparr>)
         | (ss, Some tasks) \<Rightarrow>
             (case await_wave handler tasks (s\<lparr>st_steps := ss\<rparr>) of
                (False, s') \<Rightarrow> (False, s')
              | (True, s') \<Rightarrow>
                  exec_loop repr env handler
                    (filter (\<lambda>i. i \<notin> set (executable_steps (st_steps s) (st_completed s) pending))
                       pending)
                    s')))"
  by pat_completeness auto
termination
proof (relation "measure (\<lambda>(repr, env, handler, pending, s). length pending)")
  show "wf (measure (\<lambda>(repr, env, handler, pending, s). length pending))" by simp
next
  fix repr :: "pyval \<Rightarrow> string" and env :: "string \<rightharpoonup> string" and handler :: "'w handler"
    and pending :: "nat list" and s :: "'w exec_state" and x ss y tasks x' b s'
  assume ne: "executable_steps (st_steps s) (st_completed s) pending \<noteq> []"
  then obtain i where i: "i \<in> set (executable_steps (st_steps s) (st_completed s) pending)"
    by (cases "executable_steps (st_steps s) (st_completed s) pending") auto
  then have "i \<in> set pending"
    by (simp add: executable_steps_def)
  with i have
    "length (filter (\<lambda>i. i \<notin> set (executable_steps (st_steps s) (st_completed s) pending)) pending)
       < length pending"
    by (intro length_filter_less [of i]) auto
  then show
    "((repr, env, handler,
       filter (\<lambda>i. i \<notin> set (executable_steps (st_steps s) (st_completed s) pending)) pending,
       s'),
      (repr, env, handler, pending, s))
     \<in> measure (\<lambda>(repr, env, handler, pending, s). length pending)"
    by simp
qed

declare exec_loop.simps [simp del]

definition execute_plan ::
  "(pyval \<Rightarrow> string) \<Rightarrow> (string \<rightharpoonup> string) \<Rightarrow> 'w handler \<Rightarrow> execution_plan \<Rightarrow> pydict \<Rightarrow> 'w
     \<Rightarrow> bool \<times> 'w exec_state" where
  "execute_plan repr env handler plan bb w =
     exec_loop repr env handler [0..<length (steps plan)]
       \<lparr>st_steps = steps plan, st_plan_status = InProgress, st_blackboard = bb,
        st_completed = [], st_results = [], st_world = w\<rparr>"

section \<open>Predicates used to state the properties\<close>

text \<open>
  An argument tree without placeholders: no string of the tree, at any depth, has a
  match of the placeholder pattern.
\<close>

fun no_placeholders :: "pyval \<Rightarrow> bool"
and no_placeholders_list :: "pyval list \<Rightarrow> bool"
and no_placeholders_args :: "pydict \<Rightarrow> bool" where
  "no_placeholders (PStr s) = (findall s = [])"
| "no_placeholders (PList vs) = no_placeholders_list vs"
| "no_placeholders (PDict d) = no_placeholders_args d"
| "no_placeholders v = True"
| "no_placeholders_list [] = True"
| "no_placeholders_list (v # vs) = (no_placeholders v \<and> no_placeholders_list vs)"
| "no_placeholders_args [] = True"
| "no_placeholders_args ((key, v) # d) = (no_placeholders v \<and> no_placeholders_args d)"

text \<open>
  A string written as a template: literal text without an opening brace, and
  placeholders whose expression is not empty and has no brace in it. \<open>render\<close> is
  the string itself, with each placeholder in braces; \<open>substitute f\<close> is the string
  with \<open>f m\<close> in the place of each placeholder \<open>m\<close>; \<open>placeholders\<close> lists the
  expressions in the order in which they occur. \<open>partly seen f\<close> is the string at
  the moment when the placeholders in \<open>seen\<close> have been replaced and the others
  have not.
\<close>

datatype part = Lit string | Ph string






section \<open>Example plans\<close>





section \<open>Properties of the string primitives\<close>

lemma split_not_Nil: "split sep s \<noteq> []"
  by (induction s) (auto split: list.splits)

lemma length_split: "length (split sep s) = Suc (length (filter (\<lambda>c. c = sep) s))"
  by (induction s) (auto split: list.splits simp: split_not_Nil)

lemma length_split_less_2: "length (split sep s) < 2 \<longleftrightarrow> sep \<notin> set s"
  by (auto simp add: length_split filter_empty_conv)

lemma findall_braces:
  assumes "e \<noteq> []" and "CHR ''}'' \<notin> set e"
  shows "findall (braces e) = [e]"
proof -
  have tw: "takeWhile (\<lambda>x. x \<noteq> CHR ''}'') (e @ ''}'') = e"
    using assms(2) by (induction e) auto
  have dw: "dropWhile (\<lambda>x. x \<noteq> CHR ''}'') (e @ ''}'') = ''}''"
    using assms(2) by (induction e) auto
  show ?thesis
    unfolding braces_def using assms(1) by (simp add: tw dw)
qed

















section \<open>Properties of the placeholder resolver\<close>

text \<open>
  C10. An expression without a dot is looked up in the blackboard under that exact
  key: the result is the entry when there is one and the literal text of the
  placeholder otherwise, whatever the step results and the environment hold. So the
  tokens \<open>blackboard\<close>, \<open>env\<close> and a step id are sources only in a dotted
  expression.
\<close>

theorem resolve_placeholder_bare_token:
  assumes "CHR ''.'' \<notin> set token"
  shows "resolve_placeholder env token blackboard step_results =
           (case map_of blackboard token of
              Some v \<Rightarrow> v
            | None \<Rightarrow> PStr (CHR ''{'' # token @ ''}''))"
  using assms
  by (simp add: resolve_placeholder_def length_split_less_2 braces_def split: option.splits)

theorem resolve_placeholder_bare_token_witness:
  "CHR ''.'' \<notin> set ''env''
   \<and> resolve_placeholder [''HOME'' \<mapsto> ''/root''] ''env'' [(''env'', PInt 3)] [(''env'', [])]
       = PInt 3
   \<and> resolve_placeholder [''HOME'' \<mapsto> ''/root''] ''env'' [] [(''env'', [])] = PStr ''{env}''"
  using resolve_placeholder_bare_token
          [of "''env''" "[''HOME'' \<mapsto> ''/root'']" "[(''env'', PInt 3)]" "[(''env'', [])]"]
        resolve_placeholder_bare_token
          [of "''env''" "[''HOME'' \<mapsto> ''/root'']" "[]" "[(''env'', [])]"]
  by simp

text \<open>
  C1. The soft failure does not cover a key that is missing at the last segment of the
  path. With the recorded output \<open>{"markdown": "x"}\<close> of \<open>step1\<close>, the expression
  \<open>step1.rows\<close> resolves to \<open>None\<close>, not to the literal text \<open>{step1.rows}\<close>;
  inside a longer string the text of \<open>None\<close> is substituted.
\<close>

theorem resolve_placeholder_missing_last_key:
  "resolve_placeholder env ''step1.rows'' [] [(''step1'', [(''markdown'', PStr ''x'')])] = PNone
   \<and> resolve_placeholder env ''step1.rows'' [] [(''step1'', [(''markdown'', PStr ''x'')])]
        \<noteq> PStr ''{step1.rows}''
   \<and> resolve_string repr env ''rows: {step1.rows}'' [] [(''step1'', [(''markdown'', PStr ''x'')])]
        = PStr (''rows: '' @ repr PNone)"
  by (simp add: resolve_placeholder_def resolve_string_def has_key_def braces_def py_str_def
        replace.simps)





section \<open>Properties of argument resolution\<close>

lemma resolve_list_no_placeholders:
  "no_placeholders_list vs \<Longrightarrow>
     map (\<lambda>v. case v of
                 PStr s \<Rightarrow> resolve_string repr env s blackboard step_results
               | _ \<Rightarrow> v) vs = vs"
proof (induction vs)
  case Nil
  then show ?case by simp
next
  case (Cons v vs)
  then show ?case by (cases v) (simp_all add: resolve_string_def)
qed

lemma resolve_no_placeholders:
  "no_placeholders_args a \<Longrightarrow> resolve_arguments repr env a blackboard step_results = a"
  "no_placeholders v \<Longrightarrow> resolve_value repr env v blackboard step_results = v"
proof (induction repr env a blackboard step_results and repr env v blackboard step_results
    rule: resolve_arguments_resolve_value.induct)
qed (simp_all add: resolve_string_def resolve_list_no_placeholders)

text \<open>
  C9. On an argument tree none of whose strings holds a placeholder pattern, argument
  resolution is the identity; so resolving such a tree twice is resolving it once.
\<close>

theorem resolve_arguments_identity:
  assumes "no_placeholders_args a"
  shows "resolve_arguments repr env a blackboard step_results = a
         \<and> resolve_arguments repr env (resolve_arguments repr env a blackboard step_results)
             blackboard step_results
           = resolve_arguments repr env a blackboard step_results"
  using assms by (simp add: resolve_no_placeholders)

theorem resolve_arguments_identity_witness:
  "no_placeholders_args
     [(''to'', PStr ''a@b.org''), (''rows'', PList [PList [PStr ''a'', PInt 1]]),
      (''opts'', PDict [(''role'', PStr ''reader''), (''n'', PNone)])]
   \<and> resolve_arguments (\<lambda>v. ''?'') Map.empty
       [(''to'', PStr ''a@b.org''), (''rows'', PList [PList [PStr ''a'', PInt 1]]),
        (''opts'', PDict [(''role'', PStr ''reader''), (''n'', PNone)])]
       [(''to'', PStr ''x'')] []
     = [(''to'', PStr ''a@b.org''), (''rows'', PList [PList [PStr ''a'', PInt 1]]),
        (''opts'', PDict [(''role'', PStr ''reader''), (''n'', PNone)])]"
  using resolve_arguments_identity
    [of "[(''to'', PStr ''a@b.org''), (''rows'', PList [PList [PStr ''a'', PInt 1]]),
          (''opts'', PDict [(''role'', PStr ''reader''), (''n'', PNone)])]"
        "\<lambda>v. ''?''" Map.empty "[(''to'', PStr ''x'')]" "[]"]
  by simp

text \<open>
  C4. Resolution does not reach a string inside a dictionary that is an element of a
  list: the placeholder \<open>{blackboard.u}\<close> stays in
  \<open>{"items": [{"url": "{blackboard.u}"}]}\<close>, while it is resolved in the dictionary
  \<open>{"item": {"url": "{blackboard.u}"}}\<close>. The preprocessor does go into a
  dictionary inside a list.
\<close>

theorem resolve_arguments_skips_dict_in_list:
  "resolve_arguments repr env
       [(''items'', PList [PDict [(''url'', PStr ''{blackboard.u}'')]])]
       [(''u'', PStr ''http://x'')] []
     = [(''items'', PList [PDict [(''url'', PStr ''{blackboard.u}'')]])]
   \<and> resolve_arguments repr env
       [(''item'', PDict [(''url'', PStr ''{blackboard.u}'')])]
       [(''u'', PStr ''http://x'')] []
     = [(''item'', PDict [(''url'', PStr ''http://x'')])]
   \<and> preprocess_placeholders
       [(''items'', PList [PDict [(''url'', PStr ''{prev_step_output}'')]])]
       [''step1''] [(''step1'', [(''rows'', PList [])])]
     = [(''items'', PList [PDict [(''url'', PStr ''{step1.rows}'')]])]"
  by (simp add: resolve_string_def resolve_placeholder_def braces_def preprocess_string_def
        preprocess_token_def is_generic_def has_key_def pick_field_def replace.simps)

section \<open>Properties of the request validator\<close>

lemma check_required_invalid:
  "\<not> fst (check_required names a) \<longleftrightarrow>
     (\<exists>arg\<in>set names. map_of a arg = None \<or> map_of a arg = Some PNone
        \<or> (\<exists>v. map_of a arg = Some (PStr v) \<and> CHR ''{'' \<in> set v \<and> CHR ''}'' \<in> set v))"
  by (induction names) (auto split: option.splits pyval.splits)

lemma check_required_message:
  "\<not> fst (check_required names a) \<Longrightarrow> snd (check_required names a) \<noteq> None"
  by (induction names) (auto split: option.splits pyval.splits if_splits)

lemma check_required_valid:
  "fst (check_required names a) \<Longrightarrow> check_required names a = (True, None)"
  by (induction names) (auto split: option.splits pyval.splits if_splits)

text \<open>
  C6. For a tool of the table of required arguments, the request is invalid exactly
  when one of the required arguments is absent, is \<open>None\<close>, or is a string with an
  opening and a closing brace in it; an invalid request comes with a message and a
  valid one with none. For a tool that is not in the table the request is valid.
\<close>

theorem validate_tool_request_iff:
  "(map_of required_args (req_name request) = Some names \<longrightarrow>
      (\<not> fst (validate_tool_request request) \<longleftrightarrow>
         (\<exists>arg\<in>set names.
            map_of (req_args request) arg = None
            \<or> map_of (req_args request) arg = Some PNone
            \<or> (\<exists>v. map_of (req_args request) arg = Some (PStr v)
                 \<and> CHR ''{'' \<in> set v \<and> CHR ''}'' \<in> set v)))
      \<and> (\<not> fst (validate_tool_request request)
           \<longrightarrow> snd (validate_tool_request request) \<noteq> None)
      \<and> (fst (validate_tool_request request)
           \<longrightarrow> validate_tool_request request = (True, None)))
   \<and> (map_of required_args (req_name request) = None \<longrightarrow>
        validate_tool_request request = (True, None))"
  by (simp add: validate_tool_request_def check_required_invalid check_required_message
        check_required_valid)

theorem validate_tool_request_iff_witness:
  "map_of required_args ''gmail_send'' = Some [''to'', ''subject'']
   \<and> \<not> fst (validate_tool_request
          \<lparr>req_name = ''gmail_send'',
           req_args = [(''to'', PStr ''{env.SELF_EMAIL}''), (''subject'', PStr ''hi'')],
           req_depends_on = [], request_id = ''step3''\<rparr>)
   \<and> map_of required_args ''web_search'' = None
   \<and> validate_tool_request
        \<lparr>req_name = ''web_search'', req_args = [], req_depends_on = [], request_id = ''s''\<rparr>
       = (True, None)"
proof -
  have t1: "map_of required_args ''gmail_send'' = Some [''to'', ''subject'']"
    by (simp add: required_args_def)
  have t2: "map_of required_args ''web_search'' = None"
    by (simp add: required_args_def)
  have bad: "\<exists>arg\<in>set [''to'', ''subject''].
            map_of [(''to'', PStr ''{env.SELF_EMAIL}''), (''subject'', PStr ''hi'')] arg = None
            \<or> map_of [(''to'', PStr ''{env.SELF_EMAIL}''), (''subject'', PStr ''hi'')] arg = Some PNone
            \<or> (\<exists>v. map_of [(''to'', PStr ''{env.SELF_EMAIL}''), (''subject'', PStr ''hi'')] arg = Some (PStr v)
                 \<and> CHR ''{'' \<in> set v \<and> CHR ''}'' \<in> set v)"
    by simp
  have a: "\<not> fst (validate_tool_request
          \<lparr>req_name = ''gmail_send'',
           req_args = [(''to'', PStr ''{env.SELF_EMAIL}''), (''subject'', PStr ''hi'')],
           req_depends_on = [], request_id = ''step3''\<rparr>)"
    using validate_tool_request_iff
          [of "\<lparr>req_name = ''gmail_send'',
                req_args = [(''to'', PStr ''{env.SELF_EMAIL}''), (''subject'', PStr ''hi'')],
                req_depends_on = [], request_id = ''step3''\<rparr>" "[''to'', ''subject'']"] t1 bad
    by simp
  have b: "validate_tool_request
        \<lparr>req_name = ''web_search'', req_args = [], req_depends_on = [], request_id = ''s''\<rparr>
       = (True, None)"
    using validate_tool_request_iff
          [of "\<lparr>req_name = ''web_search'', req_args = [], req_depends_on = [],
                request_id = ''s''\<rparr>" "[]"] t2
    by simp
  from t1 t2 a b show ?thesis by blast
qed

section \<open>Properties of the argument preprocessor\<close>

lemma find_last_with_result:
  assumes "\<forall>d\<in>set post. \<not> P d" and "P sid"
  shows "find P (rev (pre @ sid # post)) = Some sid"
  using assms
proof (induction post rule: rev_induct)
  case Nil
  then show ?case by simp
next
  case (snoc x xs)
  then show ?case by simp
qed

lemma find_none_with_result:
  assumes "\<forall>d\<in>set ds. \<not> P d"
  shows "find P (rev ds) = None"
  using assms by (simp add: find_None_iff)

lemma has_key_iff: "has_key d k \<longleftrightarrow> k \<in> fst ` set d"
  by (simp add: has_key_def map_of_eq_None_iff)

lemma pick_field_nonempty:
  assumes "out \<noteq> []"
  shows "pick_field out =
           Some (if ''rows'' \<in> fst ` set out then ''rows''
                 else if ''data_rows'' \<in> fst ` set out then ''data_rows''
                 else if ''output'' \<in> fst ` set out then ''output''
                 else fst (hd out))"
proof -
  have first: "(case out of [] \<Rightarrow> None | (k, v) # rest \<Rightarrow> Some k) = Some (fst (hd out))"
    using assms by (cases out) (simp_all add: case_prod_beta)
  show ?thesis
    by (simp add: pick_field_def has_key_iff first)
qed

lemma pick_field_empty: "pick_field [] = None"
  by (simp add: pick_field_def has_key_def)

lemma hd_split: "hd (split sep s) = takeWhile (\<lambda>c. c \<noteq> sep) s"
proof (induction s)
  case Nil
  then show ?case by simp
next
  case (Cons c cs)
  then show ?case
    by (cases "split sep cs") (simp_all add: split_not_Nil)
qed

lemma not_is_digit_underscore: "\<not> is_digit CHR ''_''"
  by (simp add: is_digit_def)

lemma is_digit_not_underscore: "is_digit c \<Longrightarrow> c \<noteq> CHR ''_''"
  using not_is_digit_underscore by blast

lemma digits_takeWhile:
  assumes "list_all is_digit ds"
  shows "takeWhile is_digit (ds @ ''_output'') = ds"
    and "dropWhile is_digit (ds @ ''_output'') = ''_output''"
    and "takeWhile (\<lambda>c. c \<noteq> CHR ''_'') (ds @ ''_output'') = ds"
  using assms
  by (induction ds) (simp_all add: not_is_digit_underscore is_digit_not_underscore)

lemma step_output_matches:
  assumes "ds \<noteq> []" and "list_all is_digit ds"
  shows "matches_step_output (''step'' @ ds @ ''_output'')"
  using assms by (simp add: matches_step_output_def digits_takeWhile)

lemma step_output_id:
  assumes "list_all is_digit ds"
  shows "hd (split CHR ''_'' (''step'' @ ds @ ''_output'')) = ''step'' @ ds"
proof -
  have "hd (split CHR ''_'' (''step'' @ ds @ ''_output''))
          = takeWhile (\<lambda>c. c \<noteq> CHR ''_'') (''step'' @ ds @ ''_output'')"
    by (rule hd_split)
  also have "\<dots> = ''step'' @ takeWhile (\<lambda>c. c \<noteq> CHR ''_'') (ds @ ''_output'')"
    by simp
  also have "\<dots> = ''step'' @ ds"
    using assms by (simp only: digits_takeWhile)
  finally show ?thesis .
qed

lemma step_output_not_generic:
  assumes "ds \<noteq> []"
  shows "\<not> is_generic (''step'' @ ds @ ''_output'')"
proof
  assume "is_generic (''step'' @ ds @ ''_output'')"
  then have "''step'' @ ds @ ''_output'' = ''step_output''"
    by (simp add: is_generic_def)
  then have "ds @ ''_output'' = [] @ ''_output''"
    by simp
  then have "ds = []"
    by (simp only: append_same_eq)
  with assms show False by simp
qed

text \<open>
  C8, as the claim states it, fails where the selected step has a recorded result that
  is an empty dictionary, and where the selected dependency is the empty string: the
  token is then left as it is, for a generic token and for a numbered one, though a
  dependency with a recorded result was selected.
\<close>

theorem preprocess_token_not_rewritten:
  "preprocess_placeholders [(''rows'', PStr ''{prev_step_output}'')] [''step1'']
      [(''step1'', [])] = [(''rows'', PStr ''{prev_step_output}'')]
   \<and> map_of [(''step1'', ([] :: pydict))] ''step1'' = Some []
   \<and> preprocess_placeholders [(''rows'', PStr ''{prev_step_output}'')] ['''']
      [('''', [(''rows'', PList [])])] = [(''rows'', PStr ''{prev_step_output}'')]
   \<and> preprocess_placeholders [(''rows'', PStr ''{step1_output}'')] []
      [(''step1'', [])] = [(''rows'', PStr ''{step1_output}'')]"
  by code_simp

text \<open>
  C8, amended. One token \<open>ph\<close> of a string \<open>value\<close>. For a generic token the
  step selected is the last entry of \<open>depends_on\<close> that has a recorded result
  (\<open>deps = pre @ sid # post\<close>, no entry of \<open>post\<close> with a result); for a token
  \<open>stepN_output\<close> it is the step \<open>stepN\<close>. When that step id is not the empty
  string and its recorded output is not empty, every occurrence of \<open>{ph}\<close> in the
  value becomes \<open>{step_id.field}\<close>, where the field is \<open>rows\<close> if the output has
  it, else \<open>data_rows\<close>, else \<open>output\<close>, else the first key of the output. The
  value is unchanged when no dependency has a recorded result, when the numbered step
  has none, when the recorded output is empty, and when the selected dependency is the
  empty string. On a string that is one token in braces, preprocessing is this one
  step.
\<close>

theorem preprocess_token_rewrite:
  "(ph \<in> {''prev_step_output'', ''step_output'', ''previous_output''}
      \<and> deps = pre @ sid # post \<and> (\<forall>d\<in>set post. map_of sr d = None)
      \<and> map_of sr sid = Some out \<and> sid \<noteq> [] \<and> out \<noteq> [] \<longrightarrow>
      preprocess_token deps sr value ph
        = replace value (CHR ''{'' # ph @ ''}'')
            (CHR ''{'' # sid @ ''.''
               @ (if ''rows'' \<in> fst ` set out then ''rows''
                  else if ''data_rows'' \<in> fst ` set out then ''data_rows''
                  else if ''output'' \<in> fst ` set out then ''output''
                  else fst (hd out)) @ ''}''))
   \<and> (ph \<in> {''prev_step_output'', ''step_output'', ''previous_output''}
      \<and> (\<forall>d\<in>set deps. map_of sr d = None) \<longrightarrow>
      preprocess_token deps sr value ph = value)
   \<and> (ph \<in> {''prev_step_output'', ''step_output'', ''previous_output''}
      \<and> deps = pre @ sid # post \<and> (\<forall>d\<in>set post. map_of sr d = None)
      \<and> (sid = [] \<and> map_of sr sid \<noteq> None \<or> map_of sr sid = Some []) \<longrightarrow>
      preprocess_token deps sr value ph = value)
   \<and> (ds \<noteq> [] \<and> list_all is_digit ds \<and> map_of sr (''step'' @ ds) = Some out \<and> out \<noteq> [] \<longrightarrow>
      preprocess_token deps sr value (''step'' @ ds @ ''_output'')
        = replace value (CHR ''{'' # (''step'' @ ds @ ''_output'') @ ''}'')
            (CHR ''{'' # (''step'' @ ds) @ ''.''
               @ (if ''rows'' \<in> fst ` set out then ''rows''
                  else if ''data_rows'' \<in> fst ` set out then ''data_rows''
                  else if ''output'' \<in> fst ` set out then ''output''
                  else fst (hd out)) @ ''}''))
   \<and> (ds \<noteq> [] \<and> list_all is_digit ds
      \<and> (map_of sr (''step'' @ ds) = None \<or> map_of sr (''step'' @ ds) = Some []) \<longrightarrow>
      preprocess_token deps sr value (''step'' @ ds @ ''_output'') = value)
   \<and> (tok \<noteq> [] \<and> CHR ''}'' \<notin> set tok \<longrightarrow>
      preprocess_string (CHR ''{'' # tok @ ''}'') deps sr
        = preprocess_token deps sr (CHR ''{'' # tok @ ''}'') tok)"
proof (intro conjI impI)
  assume a: "ph \<in> {''prev_step_output'', ''step_output'', ''previous_output''}
      \<and> deps = pre @ sid # post \<and> (\<forall>d\<in>set post. map_of sr d = None)
      \<and> map_of sr sid = Some out \<and> sid \<noteq> [] \<and> out \<noteq> []"
  then have g: "is_generic ph" by (simp add: is_generic_def)
  from a have "find (has_key sr) (rev (pre @ sid # post)) = Some sid"
    by (intro find_last_with_result) (simp_all add: has_key_def)
  with a have f: "find (\<lambda>dep_id. has_key sr dep_id) (rev deps) = Some sid" by simp
  from a have p: "pick_field (the (map_of sr sid)) =
           Some (if ''rows'' \<in> fst ` set out then ''rows''
                 else if ''data_rows'' \<in> fst ` set out then ''data_rows''
                 else if ''output'' \<in> fst ` set out then ''output''
                 else fst (hd out))"
    by (simp add: pick_field_nonempty)
  from a have ne: "sid \<noteq> []" by simp
  show "preprocess_token deps sr value ph
        = replace value (CHR ''{'' # ph @ ''}'')
            (CHR ''{'' # sid @ ''.''
               @ (if ''rows'' \<in> fst ` set out then ''rows''
                  else if ''data_rows'' \<in> fst ` set out then ''data_rows''
                  else if ''output'' \<in> fst ` set out then ''output''
                  else fst (hd out)) @ ''}'')"
    unfolding preprocess_token_def
    by (simp only: g f p ne braces_def if_True if_False option.case append_assoc)
next
  assume a: "ph \<in> {''prev_step_output'', ''step_output'', ''previous_output''}
      \<and> (\<forall>d\<in>set deps. map_of sr d = None)"
  then have g: "is_generic ph" by (simp add: is_generic_def)
  from a have f: "find (\<lambda>dep_id. has_key sr dep_id) (rev deps) = None"
    by (intro find_none_with_result) (simp add: has_key_def)
  show "preprocess_token deps sr value ph = value"
    unfolding preprocess_token_def by (simp only: g f if_True option.case)
next
  assume a: "ph \<in> {''prev_step_output'', ''step_output'', ''previous_output''}
      \<and> deps = pre @ sid # post \<and> (\<forall>d\<in>set post. map_of sr d = None)
      \<and> (sid = [] \<and> map_of sr sid \<noteq> None \<or> map_of sr sid = Some [])"
  then have g: "is_generic ph" by (simp add: is_generic_def)
  from a have hk: "has_key sr sid" by (auto simp add: has_key_def)
  from a have np: "\<forall>d\<in>set post. \<not> has_key sr d" by (simp add: has_key_def)
  have "find (has_key sr) (rev (pre @ sid # post)) = Some sid"
    using np hk by (rule find_last_with_result)
  with a have f: "find (\<lambda>dep_id. has_key sr dep_id) (rev deps) = Some sid" by simp
  from a have "sid = [] \<or> pick_field (the (map_of sr sid)) = None"
    by (auto simp add: pick_field_empty)
  then show "preprocess_token deps sr value ph = value"
    unfolding preprocess_token_def using g f by auto
next
  assume a: "ds \<noteq> [] \<and> list_all is_digit ds \<and> map_of sr (''step'' @ ds) = Some out \<and> out \<noteq> []"
  define sid where "sid = ''step'' @ ds"
  define tok where "tok = ''step'' @ ds @ ''_output''"
  from a have ne: "ds \<noteq> []" and dg: "list_all is_digit ds" and o: "out \<noteq> []"
    by simp_all
  have ng: "\<not> is_generic tok"
    unfolding tok_def using ne by (rule step_output_not_generic)
  have m: "matches_step_output tok"
    unfolding tok_def using ne dg by (rule step_output_matches)
  have i: "hd (split CHR ''_'' tok) = sid"
    unfolding tok_def sid_def using dg by (rule step_output_id)
  have mo: "map_of sr sid = Some out"
    unfolding sid_def using a by simp
  have hk: "has_key sr sid"
    using mo by (simp add: has_key_def)
  have p: "pick_field (the (map_of sr sid)) =
           Some (if ''rows'' \<in> fst ` set out then ''rows''
                 else if ''data_rows'' \<in> fst ` set out then ''data_rows''
                 else if ''output'' \<in> fst ` set out then ''output''
                 else fst (hd out))"
    using mo o by (simp add: pick_field_nonempty)
  have "preprocess_token deps sr value tok
        = replace value (braces tok)
            (braces (sid @ ''.''
               @ (if ''rows'' \<in> fst ` set out then ''rows''
                  else if ''data_rows'' \<in> fst ` set out then ''data_rows''
                  else if ''output'' \<in> fst ` set out then ''output''
                  else fst (hd out))))"
    unfolding preprocess_token_def
    by (simp only: ng m i hk p Let_def if_True if_False option.case)
  then show "preprocess_token deps sr value (''step'' @ ds @ ''_output'')
        = replace value (CHR ''{'' # (''step'' @ ds @ ''_output'') @ ''}'')
            (CHR ''{'' # (''step'' @ ds) @ ''.''
               @ (if ''rows'' \<in> fst ` set out then ''rows''
                  else if ''data_rows'' \<in> fst ` set out then ''data_rows''
                  else if ''output'' \<in> fst ` set out then ''output''
                  else fst (hd out)) @ ''}'')"
    by (simp only: tok_def sid_def braces_def append_assoc)
next
  assume a: "ds \<noteq> [] \<and> list_all is_digit ds
      \<and> (map_of sr (''step'' @ ds) = None \<or> map_of sr (''step'' @ ds) = Some [])"
  define sid where "sid = ''step'' @ ds"
  define tok where "tok = ''step'' @ ds @ ''_output''"
  from a have ne: "ds \<noteq> []" and dg: "list_all is_digit ds"
    by simp_all
  have ng: "\<not> is_generic tok"
    unfolding tok_def using ne by (rule step_output_not_generic)
  have m: "matches_step_output tok"
    unfolding tok_def using ne dg by (rule step_output_matches)
  have i: "hd (split CHR ''_'' tok) = sid"
    unfolding tok_def sid_def using dg by (rule step_output_id)
  have mo: "map_of sr sid = None \<or> map_of sr sid = Some []"
    unfolding sid_def using a by simp
  then have "\<not> has_key sr sid \<or> pick_field (the (map_of sr sid)) = None"
    by (auto simp add: has_key_def pick_field_empty)
  then have "preprocess_token deps sr value tok = value"
    unfolding preprocess_token_def
    by (auto simp add: ng m i Let_def)
  then show "preprocess_token deps sr value (''step'' @ ds @ ''_output'') = value"
    by (simp only: tok_def)
next
  assume "tok \<noteq> [] \<and> CHR ''}'' \<notin> set tok"
  then have "findall (braces tok) = [tok]"
    by (simp add: findall_braces)
  then show "preprocess_string (CHR ''{'' # tok @ ''}'') deps sr
        = preprocess_token deps sr (CHR ''{'' # tok @ ''}'') tok"
    by (simp add: preprocess_string_def braces_def)
qed

theorem preprocess_token_rewrite_witness:
  "preprocess_token [''step1'', ''step2'', ''step3'']
      [(''step1'', [(''rows'', PList [])]),
       (''step2'', [(''markdown'', PStr ''m''), (''data_rows'', PList [])])]
      ''{prev_step_output} {step2_output}'' ''prev_step_output''
     = ''{step2.data_rows} {step2_output}''
   \<and> preprocess_token [''step1'', ''step2'', ''step3'']
      [(''step1'', [(''rows'', PList [])]),
       (''step2'', [(''markdown'', PStr ''m''), (''data_rows'', PList [])])]
      ''{prev_step_output} {step2_output}'' ''step2_output''
     = ''{prev_step_output} {step2.data_rows}''
   \<and> preprocess_placeholders [(''rows'', PStr ''{prev_step_output} {step2_output}'')]
      [''step1'', ''step2'', ''step3'']
      [(''step1'', [(''rows'', PList [])]),
       (''step2'', [(''markdown'', PStr ''m''), (''data_rows'', PList [])])]
     = [(''rows'', PStr ''{step2.data_rows} {step2.data_rows}'')]"
proof -
  let ?sr = "[(''step1'', [(''rows'', PList [])]),
              (''step2'', [(''markdown'', PStr ''m''), (''data_rows'', PList [])])]"
  let ?v = "''{prev_step_output} {step2_output}''"
  let ?out = "[(''markdown'', PStr ''m''), (''data_rows'', PList [])]"
  note t = preprocess_token_rewrite
             [of "''prev_step_output''" "[''step1'', ''step2'', ''step3'']" "[''step1'']"
                 "''step2''" "[''step3'']" ?sr ?out ?v "''2''" "''step_output''"]
  have c1: "preprocess_token [''step1'', ''step2'', ''step3''] ?sr ?v ''prev_step_output''
        = replace ?v (CHR ''{'' # ''prev_step_output'' @ ''}'')
            (CHR ''{'' # ''step2'' @ ''.''
               @ (if ''rows'' \<in> fst ` set ?out then ''rows''
                  else if ''data_rows'' \<in> fst ` set ?out then ''data_rows''
                  else if ''output'' \<in> fst ` set ?out then ''output''
                  else fst (hd ?out)) @ ''}'')"
    by (rule mp [OF conjunct1 [OF t]]) simp
  have c4: "preprocess_token [''step1'', ''step2'', ''step3''] ?sr ?v (''step'' @ ''2'' @ ''_output'')
        = replace ?v (CHR ''{'' # (''step'' @ ''2'' @ ''_output'') @ ''}'')
            (CHR ''{'' # (''step'' @ ''2'') @ ''.''
               @ (if ''rows'' \<in> fst ` set ?out then ''rows''
                  else if ''data_rows'' \<in> fst ` set ?out then ''data_rows''
                  else if ''output'' \<in> fst ` set ?out then ''output''
                  else fst (hd ?out)) @ ''}'')"
    by (rule mp [OF conjunct1 [OF conjunct2 [OF conjunct2 [OF conjunct2 [OF t]]]]])
       (simp add: is_digit_def)
  have e1: "preprocess_token [''step1'', ''step2'', ''step3''] ?sr ?v ''prev_step_output''
              = ''{step2.data_rows} {step2_output}''"
    using c1 by (simp add: replace.simps)
  have e4: "preprocess_token [''step1'', ''step2'', ''step3''] ?sr ?v ''step2_output''
              = ''{prev_step_output} {step2.data_rows}''"
    using c4 by (simp add: replace.simps)
  have e5: "preprocess_placeholders [(''rows'', PStr ?v)] [''step1'', ''step2'', ''step3''] ?sr
              = [(''rows'', PStr ''{step2.data_rows} {step2.data_rows}'')]"
    by code_simp
  from e1 e4 e5 show ?thesis by blast
qed

section \<open>Properties of the execution engine\<close>

lemma executable_steps_none:
  assumes "\<forall>i\<in>set pending. \<exists>dep\<in>set (depends_on (ss ! i)). dep \<notin> set completed"
  shows "executable_steps ss completed pending = []"
  using assms by (auto simp add: executable_steps_def filter_empty_conv list_all_iff)






lemma await_wave_True_status:
  "await_wave handler tasks s = (True, s') \<Longrightarrow> st_plan_status s' = st_plan_status s"
proof (induction tasks arbitrary: s)
  case Nil
  then show ?case by simp
next
  case (Cons t tasks)
  then show ?case
    by (cases t) (auto simp add: Let_def split: prod.splits if_splits)
qed






text \<open>
  C7. When steps are pending and none of them has all the entries of its
  \<open>depends_on\<close> among the completed step ids, the loop returns \<open>False\<close> at once:
  the plan is marked failed, and the steps, the blackboard, the recorded results and
  the outside world are what they were, so no further step has been dispatched.
\<close>

theorem exec_loop_unsatisfiable:
  assumes "pending \<noteq> []"
    and "\<forall>i\<in>set pending. \<exists>dep\<in>set (depends_on (st_steps s ! i)). dep \<notin> set (st_completed s)"
  shows "exec_loop repr env handler pending s = (False, s\<lparr>st_plan_status := Failed\<rparr>)"
proof -
  have "executable_steps (st_steps s) (st_completed s) pending = []"
    using assms(2) by (rule executable_steps_none)
  with assms(1) show ?thesis
    by (subst exec_loop.simps) simp
qed

theorem exec_loop_unsatisfiable_witness:
  "execute_plan (\<lambda>v. ''?'') Map.empty (\<lambda>name a w. (Inr [], Suc w))
     \<lparr>plan_id = ''p'', goal = ''g'',
      steps = [\<lparr>step_id = ''step2'', tool = ''extract_pdf'',
                 step_args = [(''path'', PStr ''b.pdf'')], depends_on = [''step1''],
                 status = Pending, result = None, description = ''read b''\<rparr>],
      plan_status = Pending\<rparr> [(''k'', PInt 1)] (0::nat)
   = (False,
      \<lparr>st_steps = [\<lparr>step_id = ''step2'', tool = ''extract_pdf'',
                 step_args = [(''path'', PStr ''b.pdf'')], depends_on = [''step1''],
                 status = Pending, result = None, description = ''read b''\<rparr>],
       st_plan_status = Failed, st_blackboard = [(''k'', PInt 1)], st_completed = [],
       st_results = [], st_world = 0\<rparr>)"
  using exec_loop_unsatisfiable
    [of "[0]"
        "\<lparr>st_steps = [\<lparr>step_id = ''step2'', tool = ''extract_pdf'',
                 step_args = [(''path'', PStr ''b.pdf'')], depends_on = [''step1''],
                 status = Pending, result = None, description = ''read b''\<rparr>],
          st_plan_status = InProgress, st_blackboard = [(''k'', PInt 1)], st_completed = [],
          st_results = [], st_world = (0::nat)\<rparr>"
        "\<lambda>v. ''?''" Map.empty "\<lambda>name a w. (Inr [], Suc w)"]
  by (simp add: execute_plan_def)

text \<open>
  A run of two waves: the second step gets the rows of the first one as a list of lists.
\<close>

lemma fetch_then_store_scenario:
  "execute_plan (\<lambda>v. ''?'') Map.empty
     (\<lambda>name a w. (if name = ''extract_webpage''
                   then Inr [(''rows'', PList [PList [PStr ''a'', PStr ''1'']])]
                   else Inr [(''rows_seen'', the (map_of a ''rows''))], Suc w))
     \<lparr>plan_id = ''p'', goal = ''g'',
      steps = [\<lparr>step_id = ''step1'', tool = ''extract_webpage'',
                 step_args = [(''url'', PStr ''http://x'')], depends_on = [],
                 status = Pending, result = None, description = ''fetch''\<rparr>,
               \<lparr>step_id = ''step2'', tool = ''google_sheets_upsert'',
                 step_args = [(''spreadsheet_title'', PStr ''t''), (''sheet_name'', PStr ''s''),
                              (''rows'', PStr ''{step1.rows}'')],
                 depends_on = [''step1''],
                 status = Pending, result = None, description = ''store''\<rparr>],
      plan_status = Pending\<rparr> [] (0::nat)
   = (True,
      \<lparr>st_steps = [\<lparr>step_id = ''step1'', tool = ''extract_webpage'',
                 step_args = [(''url'', PStr ''http://x'')], depends_on = [],
                 status = Completed,
                 result = Some \<lparr>res_request_id = ''step1'', res_name = ''extract_webpage'',
                                 res_success = True,
                                 res_output = [(''rows'', PList [PList [PStr ''a'', PStr ''1'']])],
                                 res_error = None\<rparr>,
                 description = ''fetch''\<rparr>,
               \<lparr>step_id = ''step2'', tool = ''google_sheets_upsert'',
                 step_args = [(''spreadsheet_title'', PStr ''t''), (''sheet_name'', PStr ''s''),
                              (''rows'', PStr ''{step1.rows}'')],
                 depends_on = [''step1''],
                 status = Completed,
                 result = Some \<lparr>res_request_id = ''step2'', res_name = ''google_sheets_upsert'',
                                 res_success = True,
                                 res_output = [(''rows_seen'', PList [PList [PStr ''a'', PStr ''1'']])],
                                 res_error = None\<rparr>,
                 description = ''store''\<rparr>],
       st_plan_status = Completed,
       st_blackboard = [(''data_rows'', PList [PList [PStr ''a'', PStr ''1'']]),
                        (''step_step1'', PDict [(''rows'', PList [PList [PStr ''a'', PStr ''1'']])]),
                        (''step_step2'', PDict [(''rows_seen'', PList [PList [PStr ''a'', PStr ''1'']])])],
       st_completed = [''step1'', ''step2''],
       st_results = [(''step1'', [(''rows'', PList [PList [PStr ''a'', PStr ''1'']])]),
                     (''step2'', [(''rows_seen'', PList [PList [PStr ''a'', PStr ''1'']])])],
       st_world = Suc (Suc 0)\<rparr>)"
  by code_simp






text \<open>
  C3. A wave of two independent steps whose first tool call fails: \<open>execute_plan\<close>
  returns at that failure, the second step of the wave is left in progress with no
  result, and its tool call has not run (the world has seen one call).
\<close>

theorem execute_plan_leaves_wave_unsettled:
  "execute_plan (\<lambda>v. ''?'') Map.empty
     (\<lambda>name a w. (if map_of a ''path'' = Some (PStr ''a.pdf'') then Inl ''boom''
                   else Inr [(''markdown'', PStr ''m'')], Suc w))
     \<lparr>plan_id = ''p'', goal = ''g'',
      steps = [\<lparr>step_id = ''step1'', tool = ''extract_pdf'',
                 step_args = [(''path'', PStr ''a.pdf'')], depends_on = [],
                 status = Pending, result = None, description = ''read a''\<rparr>,
               \<lparr>step_id = ''step2'', tool = ''extract_pdf'',
                 step_args = [(''path'', PStr ''b.pdf'')], depends_on = [],
                 status = Pending, result = None, description = ''read b''\<rparr>],
      plan_status = Pending\<rparr> [] (0::nat)
   = (False,
      \<lparr>st_steps = [\<lparr>step_id = ''step1'', tool = ''extract_pdf'',
                 step_args = [(''path'', PStr ''a.pdf'')], depends_on = [],
                 status = Failed,
                 result = Some \<lparr>res_request_id = ''step1'', res_name = ''extract_pdf'',
                                 res_success = False, res_output = [],
                                 res_error = Some ''boom''\<rparr>,
                 description = ''read a''\<rparr>,
               \<lparr>step_id = ''step2'', tool = ''extract_pdf'',
                 step_args = [(''path'', PStr ''b.pdf'')], depends_on = [],
                 status = InProgress, result = None, description = ''read b''\<rparr>],
       st_plan_status = Failed, st_blackboard = [], st_completed = [], st_results = [],
       st_world = Suc 0\<rparr>)"
  by code_simp

end
